theory Spec2Isabelle
  imports Main "HOL-Library.Finite_Map"
begin

section \<open>The user repository of \<open>pkg/service/adapters/auth/repository_user.go\<close>\<close>

text \<open>
  The repository keeps one JSON document per user in the bucket \<open>users\<close> of an embedded
  key-value database and composes three collaborators: a password hasher, an access
  token generator and the database itself. The model below follows the Go source function
  by function. Go strings and byte slices are byte sequences, hence \<open>string\<close>; the
  conversion \<open>[]byte(s)\<close> is the identity.
\<close>

subsection \<open>Errors\<close>

text \<open>
  Go errors as values. \<open>errors_New\<close> and \<open>errors_Wrap\<close> are the two constructors of the
  \<open>errors\<close> package the source calls; \<open>ErrUnauthorized\<close> is the sentinel
  \<open>auth.ErrUnauthorized\<close>; \<open>ErrKeyRequired\<close>, \<open>ErrKeyTooLarge\<close> and \<open>ErrValueTooLarge\<close>
  are the errors of the database's \<open>Put\<close>; \<open>ErrExternal\<close> stands for any other error
  a collaborator hands back (hasher, token generator, JSON codec, transaction).
\<close>

datatype error =
    errors_New string
  | errors_Wrap error string
  | ErrUnauthorized
  | ErrKeyRequired
  | ErrKeyTooLarge
  | ErrValueTooLarge
  | ErrExternal string

text \<open>The innermost error of a chain of wraps: what \<open>errors.Is\<close> compares with a sentinel.\<close>

fun cause :: "error \<Rightarrow> error" where
  "cause (errors_Wrap e msg) = cause e"
| "cause e = e"

subsection \<open>Data model\<close>

type_synonym PasswordHash = string
type_synonym AccessToken = string

text \<open>
  \<open>time.Time\<close> as the number of nanoseconds since its zero value; the zero value is
  what a session holds before it was ever validated.
\<close>

type_synonym time = int

definition zero_time :: time where
  "zero_time = 0"

record session =
  Token :: AccessToken
  LastSeen :: time

record user =
  Username :: string
  Password :: PasswordHash
  Sessions :: "session list"

text \<open>
  Modelled from the spec: \<open>auth.User\<close> is declared in the application package, which is
  not part of the sources at hand; the spec describes it as a minimal user view that
  carries the username only. The source builds it as \<open>auth.User{Username: ...}\<close>.
\<close>

record auth_User =
  auth_Username :: string

definition auth_User_zero :: auth_User where
  "auth_User_zero = \<lparr>auth_Username = []\<rparr>"

definition user_zero :: user where
  "user_zero = \<lparr>Username = [], Password = [], Sessions = []\<rparr>"

subsection \<open>Collaborators\<close>

text \<open>
  The interfaces \<open>PasswordHasher\<close> and \<open>AccessTokenGenerator\<close>, the JSON codec
  (\<open>json.Marshal\<close>, \<open>json.Unmarshal\<close> at type \<open>user\<close>), the clock (\<open>time.Now\<close>) and
  the outcome of committing a writable database transaction are parameters of the
  model: every theorem holds for all of them unless it says otherwise. The repository
  holds the database handle on which \<open>NewUserRepository\<close> has run its own update, so
  the database is open and writable and beginning a transaction succeeds.
\<close>

record env =
  Hash :: "string \<Rightarrow> error + PasswordHash"
  Compare :: "PasswordHash \<Rightarrow> string \<Rightarrow> error option"
  Generate :: "string \<Rightarrow> error + AccessToken"
  GetUsername :: "AccessToken \<Rightarrow> error + string"
  Marshal :: "user \<Rightarrow> error + string"
  Unmarshal :: "string \<Rightarrow> error + user"
  Now :: time
  Commit :: "error option"

subsection \<open>The database and the trace of effects\<close>

text \<open>
  Every call of a collaborator and every access to the database is recorded, in order, so
  that statements such as ``the hasher is not invoked'' or ``no transaction is opened''
  can be made about the code.
\<close>

datatype event =
    EvHash string
  | EvCompare PasswordHash string
  | EvGenerate string
  | EvGetUsername AccessToken
  | EvNow
  | EvWarn string
  | EvBegin bool
  | EvCommit
  | EvRollback
  | EvFirst
  | EvGet string
  | EvPut string string
  | EvStats

text \<open>
  The state: the content of the bucket \<open>users\<close> (created by \<open>NewUserRepository\<close>) and
  the trace so far.
\<close>

record world =
  users :: "(string, string) fmap"
  trace :: "event list"

definition emit :: "event \<Rightarrow> world \<Rightarrow> world" where
  "emit e w = w\<lparr>trace := trace w @ [e]\<rparr>"

text \<open>The events a call added to the trace.\<close>

definition new_events :: "world \<Rightarrow> world \<Rightarrow> event list" where
  "new_events w w' = drop (length (trace w)) (trace w')"

fun is_tx :: "event \<Rightarrow> bool" where
  "is_tx (EvBegin writable) = True"
| "is_tx e = False"

fun is_write :: "event \<Rightarrow> bool" where
  "is_write (EvPut k v) = True"
| "is_write e = False"

text \<open>
  \<open>Bucket.Get\<close>: the value of a key, \<open>nil\<close> when the key is absent.
\<close>

definition bucket_Get :: "string \<Rightarrow> world \<Rightarrow> string option \<times> world" where
  "bucket_Get key w = (fmlookup (users w) key, emit (EvGet key) w)"

text \<open>
  \<open>Bucket.Put\<close>, as the database documents it: an error when the key is blank, when the
  key is longer than \<open>MaxKeySize\<close> (32768) or when the value is longer than
  \<open>MaxValueSize\<close> (\<open>(1 << 31) - 2\<close>); otherwise the key is set, replacing a previous value.
\<close>

definition MaxKeySize :: nat where
  "MaxKeySize = 32768"

definition MaxValueSize :: nat where
  "MaxValueSize = 2147483646"

definition bucket_Put :: "string \<Rightarrow> string \<Rightarrow> world \<Rightarrow> error option \<times> world" where
  "bucket_Put key val w =
     (let w1 = emit (EvPut key val) w in
      if key = [] then (Some ErrKeyRequired, w1)
      else if length key > MaxKeySize then (Some ErrKeyTooLarge, w1)
      else if length val > MaxValueSize then (Some ErrValueTooLarge, w1)
      else (None, w1\<lparr>users := fmupd key val (users w1)\<rparr>))"

text \<open>
  \<open>bucketIsEmpty\<close>: the cursor's \<open>First\<close> returns a nil key and a nil value exactly on
  a bucket without keys.
\<close>

definition bucketIsEmpty :: "world \<Rightarrow> bool \<times> world" where
  "bucketIsEmpty w = (fmdom (users w) = {||}, emit EvFirst w)"

text \<open>
  \<open>db.Update\<close>: begin a writable transaction, run the function, roll back when it
  returns an error, commit otherwise; a failed commit leaves the database as it was. The
  second component of the result is the variable the closure assigns.
\<close>

definition db_Update ::
  "env \<Rightarrow> (world \<Rightarrow> error option \<times> 'a \<times> world) \<Rightarrow> world \<Rightarrow> error option \<times> 'a \<times> world" where
  "db_Update r fn w =
     (case fn (emit (EvBegin True) w) of (res, v, w1) \<Rightarrow>
        (case res of
           Some err \<Rightarrow> (Some err, v, emit EvRollback (w1\<lparr>users := users w\<rparr>))
         | None \<Rightarrow>
             (case Commit r of
                Some err \<Rightarrow> (Some err, v, emit EvCommit (w1\<lparr>users := users w\<rparr>))
              | None \<Rightarrow> (None, v, emit EvCommit w1))))"

subsection \<open>The repository\<close>

definition validate :: "string \<Rightarrow> string \<Rightarrow> error option" where
  "validate username password =
     (if username = [] then Some (errors_New ''username can't be empty'')
      else if password = [] then Some (errors_New ''password can't be empty'')
      else None)"

definition RegisterInitial_tx :: "string \<Rightarrow> string \<Rightarrow> world \<Rightarrow> error option \<times> unit \<times> world" where
  "RegisterInitial_tx username j w =
     (case bucketIsEmpty w of (isEmpty, w1) \<Rightarrow>
        if \<not> isEmpty then (Some (errors_New ''there are existing users''), (), w1)
        else (case bucket_Put username j w1 of (res, w2) \<Rightarrow> (res, (), w2)))"

definition RegisterInitial :: "env \<Rightarrow> string \<Rightarrow> string \<Rightarrow> world \<Rightarrow> error option \<times> world" where
  "RegisterInitial r username password w =
     (case validate username password of
        Some err \<Rightarrow> (Some (errors_Wrap err ''invalid parameters''), w)
      | None \<Rightarrow>
          (let w1 = emit (EvHash password) w in
           case Hash r password of
             Inl err \<Rightarrow> (Some (errors_Wrap err ''hashing the password failed''), w1)
           | Inr passwordHash \<Rightarrow>
               (let u = \<lparr>Username = username, Password = passwordHash, Sessions = []\<rparr> in
                case Marshal r u of
                  Inl err \<Rightarrow> (Some (errors_Wrap err ''marshaling to json failed''), w1)
                | Inr j \<Rightarrow>
                    (case db_Update r (RegisterInitial_tx username j) w1 of
                       (res, _, w2) \<Rightarrow> (res, w2)))))"

text \<open>
  The closure of \<open>Login\<close>. Its second result is the variable \<open>token\<close> of the enclosing
  function, assigned as soon as the generator has answered.
\<close>

definition Login_tx ::
  "env \<Rightarrow> string \<Rightarrow> string \<Rightarrow> world \<Rightarrow> error option \<times> AccessToken \<times> world" where
  "Login_tx r username password w =
     (case bucket_Get username w of (jo, w1) \<Rightarrow>
        (case jo of
           None \<Rightarrow> (Some (errors_New ''user does not exist''), [], w1)
         | Some j \<Rightarrow>
             (case Unmarshal r j of
                Inl err \<Rightarrow> (Some (errors_Wrap err ''json unmarshal failed''), [], w1)
              | Inr u \<Rightarrow>
                  (let w2 = emit (EvCompare (Password u) password) w1 in
                   case Compare r (Password u) password of
                     Some err \<Rightarrow> (Some (errors_Wrap err ''invalid credentials''), [], w2)
                   | None \<Rightarrow>
                       (let w3 = emit (EvGenerate username) w2 in
                        case Generate r username of
                          Inl err \<Rightarrow>
                            (Some (errors_Wrap err ''could not create an access token''), [], w3)
                        | Inr t \<Rightarrow>
                            (let s = \<lparr>Token = t, LastSeen = zero_time\<rparr>;
                                 u' = u\<lparr>Sessions := Sessions u @ [s]\<rparr> in
                             case Marshal r u' of
                               Inl err \<Rightarrow>
                                 (Some (errors_Wrap err ''marshaling to json failed''), t, w3)
                             | Inr j' \<Rightarrow>
                                 (case bucket_Put username j' w3 of
                                    (res, w4) \<Rightarrow> (res, t, w4))))))))"

definition Login ::
  "env \<Rightarrow> string \<Rightarrow> string \<Rightarrow> world \<Rightarrow> (AccessToken \<times> error option) \<times> world" where
  "Login r username password w =
     (case validate username password of
        Some err \<Rightarrow> (([], Some (errors_Wrap err ''invalid parameters'')), w)
      | None \<Rightarrow>
          (case db_Update r (Login_tx r username password) w of
             (res, token, w1) \<Rightarrow>
               (case res of
                  Some err \<Rightarrow> (([], Some (errors_Wrap err ''transaction failed'')), w1)
                | None \<Rightarrow> ((token, None), w1))))"

text \<open>
  \<open>getUser\<close> returns \<open>(nil, nil)\<close> for an absent key: the inner option is the pointer.
\<close>

definition getUser :: "env \<Rightarrow> string \<Rightarrow> world \<Rightarrow> (error + user option) \<times> world" where
  "getUser r username w =
     (case bucket_Get username w of (jo, w1) \<Rightarrow>
        (case jo of
           None \<Rightarrow> (Inr None, w1)
         | Some j \<Rightarrow>
             (case Unmarshal r j of
                Inl err \<Rightarrow> (Inl (errors_Wrap err ''json unmarshal failed''), w1)
              | Inr u \<Rightarrow> (Inr (Some u), w1))))"

definition putUser :: "env \<Rightarrow> user \<Rightarrow> world \<Rightarrow> error option \<times> world" where
  "putUser r u w =
     (case Marshal r u of
        Inl err \<Rightarrow> (Some (errors_Wrap err ''marshaling to json failed''), w)
      | Inr j \<Rightarrow> bucket_Put (Username u) j w)"

text \<open>
  The loop \<open>for i := range u.Sessions\<close> of \<open>CheckAccessToken\<close>, from index \<open>i\<close> on: the
  index of the first session whose token equals the given one, if there is any.
\<close>

fun findSession :: "session list \<Rightarrow> AccessToken \<Rightarrow> nat \<Rightarrow> nat option" where
  "findSession [] token i = None"
| "findSession (s # ss) token i =
     (if Token s = token then Some i else findSession ss token (Suc i))"

text \<open>
  The closure of \<open>CheckAccessToken\<close>. Its second result is the variable \<open>foundUser\<close>.
\<close>

definition CheckAccessToken_tx ::
  "env \<Rightarrow> string \<Rightarrow> AccessToken \<Rightarrow> world \<Rightarrow> error option \<times> user \<times> world" where
  "CheckAccessToken_tx r username token w =
     (case getUser r username w of (res, w1) \<Rightarrow>
        (case res of
           Inl err \<Rightarrow> (Some (errors_Wrap err ''could not get the user''), user_zero, w1)
         | Inr None \<Rightarrow> (Some ErrUnauthorized, user_zero, emit (EvWarn ''user does't exist'') w1)
         | Inr (Some u) \<Rightarrow>
             (case findSession (Sessions u) token 0 of
                None \<Rightarrow> (Some (errors_New ''invalid token''), user_zero, w1)
              | Some i \<Rightarrow>
                  (let w2 = emit EvNow w1;
                       u' = u\<lparr>Sessions := (Sessions u)[i := (Sessions u ! i)\<lparr>LastSeen := Now r\<rparr>]\<rparr> in
                   case putUser r u' w2 of (res', w3) \<Rightarrow> (res', u', w3)))))"

definition CheckAccessToken ::
  "env \<Rightarrow> AccessToken \<Rightarrow> world \<Rightarrow> (auth_User \<times> error option) \<times> world" where
  "CheckAccessToken r token w =
     (let w0 = emit (EvGetUsername token) w in
      case GetUsername r token of
        Inl err \<Rightarrow>
          ((auth_User_zero, Some ErrUnauthorized), emit (EvWarn ''could not get the username'') w0)
      | Inr username \<Rightarrow>
          (case db_Update r (CheckAccessToken_tx r username token) w0 of
             (res, foundUser, w1) \<Rightarrow>
               (case res of
                  Some err \<Rightarrow> ((auth_User_zero, Some (errors_Wrap err ''transaction failed'')), w1)
                | None \<Rightarrow> ((\<lparr>auth_Username = Username foundUser\<rparr>, None), w1))))"

definition Logout :: "env \<Rightarrow> AccessToken \<Rightarrow> world \<Rightarrow> error option \<times> world" where
  "Logout r token w = (Some (errors_New ''not implemented''), w)"

text \<open>
  \<open>db.View\<close>: a read-only transaction around the function, rolled back at the end; the
  error of the function is the error of the call.
\<close>

definition db_View ::
  "(world \<Rightarrow> error option \<times> 'a \<times> world) \<Rightarrow> world \<Rightarrow> error option \<times> 'a \<times> world" where
  "db_View fn w =
     (case fn (emit (EvBegin False) w) of (res, v, w1) \<Rightarrow>
        (res, v, emit EvRollback (w1\<lparr>users := users w\<rparr>)))"

text \<open>
  The closure of \<open>Count\<close> reads \<open>KeyN\<close>, the number of keys, from the statistics of the
  bucket; its second result is the variable \<open>count\<close>.
\<close>

definition Count_tx :: "world \<Rightarrow> error option \<times> int \<times> world" where
  "Count_tx w = (None, int (fcard (fmdom (users w))), emit EvStats w)"

definition Count :: "world \<Rightarrow> (int \<times> error option) \<times> world" where
  "Count w =
     (case db_View Count_tx w of (res, count, w1) \<Rightarrow>
        (case res of
           Some err \<Rightarrow> ((0, Some (errors_Wrap err ''view error'')), w1)
         | None \<Rightarrow> ((count, None), w1)))"

subsection \<open>A concrete environment\<close>

text \<open>
  One instance of the collaborators, for running the model: a hasher that prefixes the
  password, a generator that prefixes the username, a codec, a clock that reads 1000 and a
  commit that succeeds; and variants in which one collaborator fails or the clock reads an
  earlier time.

  The codec serializes every record and reads back what it has written, as the JSON codec
  does for a user record. The records of a user \<open>alice\<close> that the runs below meet have
  short documents (\<open>A0\<close>, \<open>A1\<close>, ...); every other record is written field by field,
  each string behind its length and each number in unary notation, and parsed back from
  that format.
\<close>

definition put_nat :: "nat \<Rightarrow> string" where
  "put_nat n = replicate n (CHR ''1'') @ ''0''"

definition get_nat :: "string \<Rightarrow> (nat \<times> string) option" where
  "get_nat j =
     (case dropWhile (\<lambda>c. c = CHR ''1'') j of
        [] \<Rightarrow> None
      | c # rest \<Rightarrow>
          if c = CHR ''0'' then Some (length (takeWhile (\<lambda>c. c = CHR ''1'') j), rest) else None)"

definition put_string :: "string \<Rightarrow> string" where
  "put_string s = put_nat (length s) @ s"

definition get_string :: "string \<Rightarrow> (string \<times> string) option" where
  "get_string j =
     (case get_nat j of
        None \<Rightarrow> None
      | Some (n, rest) \<Rightarrow> if length rest < n then None else Some (take n rest, drop n rest))"

definition put_time :: "time \<Rightarrow> string" where
  "put_time t = (if t < 0 then ''-'' else ''+'') @ put_nat (nat \<bar>t\<bar>)"

definition get_time :: "string \<Rightarrow> (time \<times> string) option" where
  "get_time j =
     (case j of
        [] \<Rightarrow> None
      | c # rest \<Rightarrow>
          (case get_nat rest of
             None \<Rightarrow> None
           | Some (n, rest') \<Rightarrow>
               if c = CHR ''+'' then Some (int n, rest')
               else if c = CHR ''-'' then Some (- int n, rest')
               else None))"

definition put_session :: "session \<Rightarrow> string" where
  "put_session s = put_string (Token s) @ put_time (LastSeen s)"

definition get_session :: "string \<Rightarrow> (session \<times> string) option" where
  "get_session j =
     (case get_string j of
        None \<Rightarrow> None
      | Some (t, rest) \<Rightarrow>
          (case get_time rest of
             None \<Rightarrow> None
           | Some (l, rest') \<Rightarrow> Some (\<lparr>Token = t, LastSeen = l\<rparr>, rest')))"

primrec get_sessions :: "nat \<Rightarrow> string \<Rightarrow> (session list \<times> string) option" where
  "get_sessions 0 j = Some ([], j)"
| "get_sessions (Suc n) j =
     (case get_session j of
        None \<Rightarrow> None
      | Some (s, rest) \<Rightarrow>
          (case get_sessions n rest of
             None \<Rightarrow> None
           | Some (ss, rest') \<Rightarrow> Some (s # ss, rest')))"

definition put_user :: "user \<Rightarrow> string" where
  "put_user u =
     put_string (Username u) @ put_string (Password u) @
     put_nat (length (Sessions u)) @ concat (map put_session (Sessions u))"

definition get_user :: "string \<Rightarrow> user option" where
  "get_user j =
     (case get_string j of
        None \<Rightarrow> None
      | Some (name, rest) \<Rightarrow>
          (case get_string rest of
             None \<Rightarrow> None
           | Some (hash, rest') \<Rightarrow>
               (case get_nat rest' of
                  None \<Rightarrow> None
                | Some (n, rest'') \<Rightarrow>
                    (case get_sessions n rest'' of
                       None \<Rightarrow> None
                     | Some (ss, rest''') \<Rightarrow>
                         if rest''' = [] then Some \<lparr>Username = name, Password = hash, Sessions = ss\<rparr>
                         else None))))"

definition alice0 :: user where
  "alice0 = \<lparr>Username = ''alice'', Password = ''h:secret'', Sessions = []\<rparr>"

definition alice1 :: user where
  "alice1 = \<lparr>Username = ''alice'', Password = ''h:secret'',
     Sessions = [\<lparr>Token = ''tok-alice'', LastSeen = 0\<rparr>]\<rparr>"

definition alice2 :: user where
  "alice2 = \<lparr>Username = ''alice'', Password = ''h:secret'',
     Sessions = [\<lparr>Token = ''tok-alice'', LastSeen = 1000\<rparr>]\<rparr>"

definition alice3 :: user where
  "alice3 = \<lparr>Username = ''alice'', Password = ''h:secret'',
     Sessions = [\<lparr>Token = ''tok-alice'', LastSeen = 500\<rparr>]\<rparr>"

definition alice_twice :: user where
  "alice_twice = \<lparr>Username = ''alice'', Password = ''h:secret'',
     Sessions = [\<lparr>Token = ''tok-alice'', LastSeen = 0\<rparr>, \<lparr>Token = ''tok-alice'', LastSeen = 0\<rparr>]\<rparr>"

definition alice_twice_seen :: user where
  "alice_twice_seen = \<lparr>Username = ''alice'', Password = ''h:secret'',
     Sessions = [\<lparr>Token = ''tok-alice'', LastSeen = 1000\<rparr>, \<lparr>Token = ''tok-alice'', LastSeen = 0\<rparr>]\<rparr>"

definition alice_blank :: user where
  "alice_blank = \<lparr>Username = ''alice'', Password = ''h:'', Sessions = []\<rparr>"

definition alice_multi :: user where
  "alice_multi = \<lparr>Username = ''alice'', Password = ''h:secret'',
     Sessions = [\<lparr>Token = ''tok-laptop'', LastSeen = 7\<rparr>, \<lparr>Token = ''tok-alice'', LastSeen = 0\<rparr>,
                 \<lparr>Token = ''tok-phone'', LastSeen = 3\<rparr>]\<rparr>"

definition alice_multi_seen :: user where
  "alice_multi_seen = \<lparr>Username = ''alice'', Password = ''h:secret'',
     Sessions = [\<lparr>Token = ''tok-laptop'', LastSeen = 7\<rparr>, \<lparr>Token = ''tok-alice'', LastSeen = 1000\<rparr>,
                 \<lparr>Token = ''tok-phone'', LastSeen = 3\<rparr>]\<rparr>"

definition demo_Marshal :: "user \<Rightarrow> error + string" where
  "demo_Marshal u =
     (if u = alice0 then Inr ''A0''
      else if u = alice1 then Inr ''A1''
      else if u = alice2 then Inr ''A2''
      else if u = alice3 then Inr ''A3''
      else if u = alice_twice then Inr ''T0''
      else if u = alice_twice_seen then Inr ''T1''
      else if u = alice_blank then Inr ''B0''
      else if u = alice_multi then Inr ''M0''
      else if u = alice_multi_seen then Inr ''M1''
      else Inr (put_user u))"

definition demo_Unmarshal :: "string \<Rightarrow> error + user" where
  "demo_Unmarshal j =
     (if j = ''A0'' then Inr alice0
      else if j = ''A1'' then Inr alice1
      else if j = ''A2'' then Inr alice2
      else if j = ''A3'' then Inr alice3
      else if j = ''T0'' then Inr alice_twice
      else if j = ''T1'' then Inr alice_twice_seen
      else if j = ''B0'' then Inr alice_blank
      else if j = ''M0'' then Inr alice_multi
      else if j = ''M1'' then Inr alice_multi_seen
      else (case get_user j of
              None \<Rightarrow> Inl (ErrExternal ''json: invalid character'')
            | Some u \<Rightarrow> Inr u))"

definition demo :: env where
  "demo =
     \<lparr>Hash = (\<lambda>p. Inr (''h:'' @ p)),
      Compare = (\<lambda>h p. if h = ''h:'' @ p then None else Some (ErrExternal ''mismatch'')),
      Generate = (\<lambda>u. Inr (''tok-'' @ u)),
      GetUsername = (\<lambda>t. if take 4 t = ''tok-'' then Inr (drop 4 t)
                          else Inl (ErrExternal ''malformed token'')),
      Marshal = demo_Marshal,
      Unmarshal = demo_Unmarshal,
      Now = 1000,
      Commit = None\<rparr>"

definition demo_nohash :: env where
  "demo_nohash = demo\<lparr>Hash := (\<lambda>p. Inl (ErrExternal ''password too long''))\<rparr>"

definition demo_nomarshal :: env where
  "demo_nomarshal = demo\<lparr>Marshal := (\<lambda>u. Inl (ErrExternal ''json: unsupported value''))\<rparr>"

definition demo_nogen :: env where
  "demo_nogen = demo\<lparr>Generate := (\<lambda>u. Inl (ErrExternal ''no entropy''))\<rparr>"

definition demo_nocommit :: env where
  "demo_nocommit = demo\<lparr>Commit := Some (ErrExternal ''disk full'')\<rparr>"

definition demo_back :: env where
  "demo_back = demo\<lparr>Now := 500\<rparr>"

definition store :: "string \<Rightarrow> world" where
  "store j = \<lparr>users = fmupd ''alice'' j fmempty, trace = []\<rparr>"

definition store_empty :: world where
  "store_empty = \<lparr>users = fmempty, trace = []\<rparr>"

section \<open>Properties\<close>

subsection \<open>Auxiliary facts\<close>

lemmas repo_defs = RegisterInitial_def RegisterInitial_tx_def Login_def Login_tx_def
  CheckAccessToken_def CheckAccessToken_tx_def getUser_def putUser_def Logout_def
  Count_def Count_tx_def db_Update_def db_View_def bucket_Get_def bucket_Put_def
  bucketIsEmpty_def validate_def emit_def new_events_def MaxKeySize_def MaxValueSize_def
  zero_time_def auth_User_zero_def user_zero_def

lemmas demo_defs = demo_def demo_nohash_def demo_nogen_def demo_nocommit_def demo_back_def
  demo_Marshal_def demo_Unmarshal_def alice0_def alice1_def alice2_def alice3_def
  alice_twice_def alice_twice_seen_def alice_blank_def store_def store_empty_def
  alice_multi_def alice_multi_seen_def demo_nomarshal_def

lemma get_nat_put_nat: "get_nat (put_nat n @ r) = Some (n, r)"
  by (simp add: get_nat_def put_nat_def dropWhile_append3 takeWhile_tail)

lemma get_string_put_string: "get_string (put_string s @ r) = Some (s, r)"
  by (simp add: get_string_def put_string_def get_nat_put_nat)

lemma get_time_put_time: "get_time (put_time t @ r) = Some (t, r)"
  by (simp add: get_time_def put_time_def get_nat_put_nat)

lemma get_session_put_session: "get_session (put_session s @ r) = Some (s, r)"
  by (simp add: get_session_def put_session_def get_string_put_string get_time_put_time)

lemma get_sessions_put: "get_sessions (length ss) (concat (map put_session ss) @ r) = Some (ss, r)"
  by (induction ss) (simp_all add: get_session_put_session)

lemma get_user_put_user: "get_user (put_user u) = Some u"
  using get_sessions_put [of "Sessions u" "[]"]
  by (simp add: get_user_def put_user_def get_string_put_string get_nat_put_nat)

lemma put_user_head: "\<exists>c rest. put_user u = c # rest \<and> (c = CHR ''1'' \<or> c = CHR ''0'')"
  by (cases "Username u") (simp_all add: put_user_def put_string_def put_nat_def)

lemma demo_Marshal_total: "\<exists>j. demo_Marshal u = Inr j"
  by (simp add: demo_Marshal_def)

lemma demo_Unmarshal_Marshal: "demo_Marshal u = Inr j \<Longrightarrow> demo_Unmarshal j = Inr u"
  using put_user_head [of u]
  by (auto simp: demo_Marshal_def demo_Unmarshal_def get_user_put_user split: if_splits)

lemma emit_users: "users (emit e w) = users w"
  by (simp add: emit_def)

lemma fmdom_empty_iff: "fmdom m = {||} \<longleftrightarrow> m = fmempty"
  by (metis fmdom_empty fmap_ext fmdom_notD fmempty_lookup fempty_iff)

lemma db_Update_error:
  "db_Update r fn w = (Some e, v, w') \<Longrightarrow> users w' = users w"
  by (cases "fn (emit (EvBegin True) w)")
     (auto simp: db_Update_def emit_def split: option.splits)

lemma db_Update_ok:
  "db_Update r fn w = (None, v, w') \<Longrightarrow>
     \<exists>w1. fn (emit (EvBegin True) w) = (None, v, w1) \<and> Commit r = None \<and> w' = emit EvCommit w1"
  by (cases "fn (emit (EvBegin True) w)")
     (auto simp: db_Update_def split: option.splits)

lemma Count_value: "fst (Count w) = (int (fcard (fmdom (users w))), None)"
  by (simp add: Count_def Count_tx_def db_View_def emit_def)

lemma findSession_None:
  "findSession ss token n = None \<longleftrightarrow> token \<notin> Token ` set ss"
  by (induction ss arbitrary: n) auto

lemma findSession_Some:
  "findSession ss token n = Some m \<longleftrightarrow>
     (\<exists>i. m = n + i \<and> i < length ss \<and> Token (ss ! i) = token \<and>
          (\<forall>k<i. Token (ss ! k) \<noteq> token))"
proof (induction ss arbitrary: n)
  case Nil
  then show ?case by simp
next
  case (Cons s ss)
  show ?case
  proof (cases "Token s = token")
    case True
    then show ?thesis by (auto simp: gr0_conv_Suc) (metis nth_Cons_0 not_gr_zero)
  next
    case False
    have "(\<exists>i. m = Suc n + i \<and> i < length ss \<and> Token (ss ! i) = token \<and>
               (\<forall>k<i. Token (ss ! k) \<noteq> token))
        \<longleftrightarrow> (\<exists>i. m = n + i \<and> i < length (s # ss) \<and> Token ((s # ss) ! i) = token \<and>
               (\<forall>k<i. Token ((s # ss) ! k) \<noteq> token))" (is "?L \<longleftrightarrow> ?R")
    proof
      assume ?L
      then obtain i where i: "m = Suc n + i" "i < length ss" "Token (ss ! i) = token"
        "\<forall>k<i. Token (ss ! k) \<noteq> token" by blast
      have "\<forall>k<Suc i. Token ((s # ss) ! k) \<noteq> token"
        using i(4) False by (auto simp: less_Suc_eq_0_disj)
      with i show ?R by (intro exI [of _ "Suc i"]) auto
    next
      assume ?R
      then obtain i where i: "m = n + i" "i < length (s # ss)" "Token ((s # ss) ! i) = token"
        "\<forall>k<i. Token ((s # ss) ! k) \<noteq> token" by blast
      with False obtain i' where i': "i = Suc i'" by (cases i) auto
      have "\<forall>k<i'. Token (ss ! k) \<noteq> token"
        using i(4) i' by (metis Suc_less_eq nth_Cons_Suc)
      with i i' show ?L by (intro exI [of _ i']) auto
    qed
    with False Cons.IH [of "Suc n"] show ?thesis by simp
  qed
qed

lemma CheckAccessToken_tx_ok:
  assumes "CheckAccessToken_tx r username token w = (None, fu, w1)"
  shows "\<exists>j u i j'. fmlookup (users w) username = Some j \<and> Unmarshal r j = Inr u \<and>
           findSession (Sessions u) token 0 = Some i \<and>
           fu = u\<lparr>Sessions := (Sessions u)[i := (Sessions u ! i)\<lparr>LastSeen := Now r\<rparr>]\<rparr> \<and>
           Marshal r fu = Inr j' \<and> users w1 = fmupd (Username u) j' (users w)"
proof (cases "fmlookup (users w) username")
  case None
  with assms show ?thesis
    by (simp add: CheckAccessToken_tx_def getUser_def bucket_Get_def)
next
  case (Some j)
  show ?thesis
  proof (cases "Unmarshal r j")
    case (Inl e)
    with assms Some show ?thesis
      by (simp add: CheckAccessToken_tx_def getUser_def bucket_Get_def)
  next
    case (Inr u)
    show ?thesis
    proof (cases "findSession (Sessions u) token 0")
      case None
      with assms Some Inr show ?thesis
        by (simp add: CheckAccessToken_tx_def getUser_def bucket_Get_def)
    next
      case i: (Some i)
      let ?u' = "u\<lparr>Sessions := (Sessions u)[i := (Sessions u ! i)\<lparr>LastSeen := Now r\<rparr>]\<rparr>"
      show ?thesis
      proof (cases "Marshal r ?u'")
        case (Inl e)
        with assms Some Inr i show ?thesis
          by (simp add: CheckAccessToken_tx_def getUser_def putUser_def bucket_Get_def)
      next
        case j': (Inr j')
        with assms Some Inr i have "fu = ?u'" and "users w1 = fmupd (Username u) j' (users w)"
          by (auto simp: CheckAccessToken_tx_def getUser_def putUser_def bucket_Get_def
              bucket_Put_def emit_def Let_def split: if_splits)
        with Some Inr i j' show ?thesis by simp
      qed
    qed
  qed
qed

lemma CheckAccessToken_ok:
  assumes "CheckAccessToken r token w = ((view, None), w')"
  shows "\<exists>username j u i j'. GetUsername r token = Inr username \<and>
           fmlookup (users w) username = Some j \<and> Unmarshal r j = Inr u \<and>
           findSession (Sessions u) token 0 = Some i \<and>
           Marshal r (u\<lparr>Sessions := (Sessions u)[i := (Sessions u ! i)\<lparr>LastSeen := Now r\<rparr>]\<rparr>) = Inr j' \<and>
           users w' = fmupd (Username u) j' (users w) \<and>
           view = \<lparr>auth_Username = Username u\<rparr>"
proof (cases "GetUsername r token")
  case (Inl e)
  with assms show ?thesis by (simp add: CheckAccessToken_def)
next
  case (Inr username)
  let ?w0 = "emit (EvGetUsername token) w"
  obtain res fu w1 where d: "db_Update r (CheckAccessToken_tx r username token) ?w0 = (res, fu, w1)"
    by (cases "db_Update r (CheckAccessToken_tx r username token) ?w0") auto
  with assms Inr have res: "res = None" and v: "view = \<lparr>auth_Username = Username fu\<rparr>" and w': "w' = w1"
    by (auto simp: CheckAccessToken_def split: option.splits)
  from db_Update_ok [OF d [unfolded res]] obtain w2 where
    tx: "CheckAccessToken_tx r username token (emit (EvBegin True) ?w0) = (None, fu, w2)"
    and w1: "w1 = emit EvCommit w2" by blast
  from CheckAccessToken_tx_ok [OF tx] obtain j u i j' where
    "fmlookup (users w) username = Some j" "Unmarshal r j = Inr u"
    "findSession (Sessions u) token 0 = Some i"
    "fu = u\<lparr>Sessions := (Sessions u)[i := (Sessions u ! i)\<lparr>LastSeen := Now r\<rparr>]\<rparr>"
    "Marshal r fu = Inr j'" "users w2 = fmupd (Username u) j' (users w)"
    by (auto simp: emit_def)
  with Inr v w' w1 show ?thesis by (auto simp: emit_def)
qed

subsection \<open>C1: registration against an empty and a non-empty bucket\<close>

text \<open>
  C1, as the code has it. Let a call of \<open>RegisterInitial\<close> return \<open>res\<close> and leave the
  state \<open>w'\<close>.
  \<^item> On an empty bucket, with a non-empty username and password, a hasher that returns
    the hash \<open>h\<close>, a codec that returns \<open>j\<close> for the record (username, \<open>h\<close>, no
    sessions), a key and a value within the size limits of the database and a commit that
    succeeds: the call returns no error, the bucket then holds exactly one key, the
    username, with the value \<open>j\<close>, and \<open>Count\<close> returns 1.
  \<^item> On a bucket that is not empty, whatever the username and password: the call returns
    an error, attempts no \<open>Put\<close>, leaves the bucket as it was, and \<open>Count\<close> returns
    what it returned before. The error is \<open>there are existing users\<close> whenever
    validation, hashing and serialization have passed; otherwise it is the error of the
    step that stopped the call: the error of \<open>validate\<close> wrapped as
    \<open>invalid parameters\<close>, else the error of the hasher wrapped as
    \<open>hashing the password failed\<close>, else the error of the codec wrapped as
    \<open>marshaling to json failed\<close>.
\<close>

theorem RegisterInitial_only_on_empty_store:
  assumes "RegisterInitial r username password w = (res, w')"
  shows "(users w = fmempty \<and> username \<noteq> [] \<and> password \<noteq> [] \<and>
          Hash r password = Inr h \<and>
          Marshal r \<lparr>Username = username, Password = h, Sessions = []\<rparr> = Inr j \<and>
          length username \<le> MaxKeySize \<and> length j \<le> MaxValueSize \<and> Commit r = None \<longrightarrow>
            res = None \<and> users w' = fmupd username j fmempty \<and> fst (Count w') = (1, None)) \<and>
         (users w \<noteq> fmempty \<longrightarrow>
            res \<noteq> None \<and> users w' = users w \<and> filter is_write (new_events w w') = [] \<and>
            fst (Count w') = fst (Count w) \<and>
            (validate username password = Some e \<longrightarrow>
               res = Some (errors_Wrap e ''invalid parameters'')) \<and>
            (username \<noteq> [] \<and> password \<noteq> [] \<and> Hash r password = Inl e \<longrightarrow>
               res = Some (errors_Wrap e ''hashing the password failed'')) \<and>
            (username \<noteq> [] \<and> password \<noteq> [] \<and> Hash r password = Inr h \<and>
             Marshal r \<lparr>Username = username, Password = h, Sessions = []\<rparr> = Inl e \<longrightarrow>
               res = Some (errors_Wrap e ''marshaling to json failed'')) \<and>
            (username \<noteq> [] \<and> password \<noteq> [] \<and> Hash r password = Inr h \<and>
             Marshal r \<lparr>Username = username, Password = h, Sessions = []\<rparr> = Inr j \<longrightarrow>
               res = Some (errors_New ''there are existing users'')))"
proof -
  have a: "res = None \<and> users w' = fmupd username j fmempty \<and> fst (Count w') = (1, None)"
    if "users w = fmempty" "username \<noteq> []" "password \<noteq> []" "Hash r password = Inr h"
       "Marshal r \<lparr>Username = username, Password = h, Sessions = []\<rparr> = Inr j"
       "length username \<le> MaxKeySize" "length j \<le> MaxValueSize" "Commit r = None"
  proof -
    from assms that have "res = None" and u: "users w' = fmupd username j fmempty"
      by (auto simp: RegisterInitial_def RegisterInitial_tx_def validate_def db_Update_def
          bucketIsEmpty_def bucket_Put_def emit_def)
    moreover from u have "fst (Count w') = (1, None)"
      by (simp add: Count_value fcard_finsert_if)
    ultimately show ?thesis by simp
  qed
  have v: "res = Some (errors_Wrap e ''invalid parameters'')"
    if "validate username password = Some e"
    using assms that by (simp add: RegisterInitial_def)
  have hs: "res = Some (errors_Wrap e ''hashing the password failed'')"
    if "username \<noteq> []" "password \<noteq> []" "Hash r password = Inl e"
    using assms that by (simp add: RegisterInitial_def validate_def)
  have ms: "res = Some (errors_Wrap e ''marshaling to json failed'')"
    if "username \<noteq> []" "password \<noteq> []" "Hash r password = Inr h"
       "Marshal r \<lparr>Username = username, Password = h, Sessions = []\<rparr> = Inl e"
    using assms that by (simp add: RegisterInitial_def validate_def)
  have b: "res \<noteq> None \<and> users w' = users w \<and> filter is_write (new_events w w') = [] \<and>
           fst (Count w') = fst (Count w) \<and>
           (username \<noteq> [] \<and> password \<noteq> [] \<and> Hash r password = Inr h \<and>
             Marshal r \<lparr>Username = username, Password = h, Sessions = []\<rparr> = Inr j \<longrightarrow>
               res = Some (errors_New ''there are existing users''))"
    if ne: "users w \<noteq> fmempty"
  proof -
    from ne have d: "fmdom (users w) \<noteq> {||}" by (simp add: fmdom_empty_iff)
    have tx: "db_Update r (RegisterInitial_tx username j') w1 =
        (Some (errors_New ''there are existing users''), (),
         emit EvRollback (emit EvFirst (emit (EvBegin True) w1)))"
      if "users w1 = users w" for j' w1
      using d that by (simp add: db_Update_def RegisterInitial_tx_def bucketIsEmpty_def emit_def)
    have c: "res \<noteq> None \<and> users w' = users w \<and> filter is_write (new_events w w') = []"
    proof (cases "validate username password")
      case (Some e)
      with assms show ?thesis by (auto simp: RegisterInitial_def new_events_def)
    next
      case None
      show ?thesis
      proof (cases "Hash r password")
        case (Inl e)
        with assms None show ?thesis
          by (auto simp: RegisterInitial_def new_events_def emit_def)
      next
        case (Inr h')
        show ?thesis
        proof (cases "Marshal r \<lparr>Username = username, Password = h', Sessions = []\<rparr>")
          case (Inl e)
          with assms None Inr show ?thesis
            by (auto simp: RegisterInitial_def new_events_def emit_def)
        next
          case (Inr j')
          with assms None \<open>Hash r password = Inr h'\<close> tx [of "emit (EvHash password) w" j']
          show ?thesis
            by (auto simp: RegisterInitial_def new_events_def emit_def)
        qed
      qed
    qed
    moreover from c have "fst (Count w') = fst (Count w)" by (simp add: Count_value)
    moreover have "res = Some (errors_New ''there are existing users'')"
      if "username \<noteq> []" "password \<noteq> []" "Hash r password = Inr h"
         "Marshal r \<lparr>Username = username, Password = h, Sessions = []\<rparr> = Inr j"
      using assms that tx [of "emit (EvHash password) w" j]
      by (auto simp: RegisterInitial_def validate_def emit_def)
    ultimately show ?thesis by blast
  qed
  from a b v hs ms show ?thesis by blast
qed

theorem RegisterInitial_only_on_empty_store_witness:
  "users store_empty = fmempty \<and>
   Hash demo ''secret'' = Inr ''h:secret'' \<and>
   Marshal demo \<lparr>Username = ''alice'', Password = ''h:secret'', Sessions = []\<rparr> = Inr ''A0'' \<and>
   fst (RegisterInitial demo ''alice'' ''secret'' store_empty) = None \<and>
   users (snd (RegisterInitial demo ''alice'' ''secret'' store_empty)) = users (store ''A0'') \<and>
   fst (Count (snd (RegisterInitial demo ''alice'' ''secret'' store_empty))) = (1, None) \<and>
   users (store ''A0'') \<noteq> fmempty \<and>
   Hash demo ''hunter2'' = Inr ''h:hunter2'' \<and>
   Marshal demo \<lparr>Username = ''bob'', Password = ''h:hunter2'', Sessions = []\<rparr> =
     Inr (put_user \<lparr>Username = ''bob'', Password = ''h:hunter2'', Sessions = []\<rparr>) \<and>
   fst (RegisterInitial demo ''bob'' ''hunter2'' (store ''A0'')) =
     Some (errors_New ''there are existing users'') \<and>
   users (snd (RegisterInitial demo ''bob'' ''hunter2'' (store ''A0''))) = users (store ''A0'') \<and>
   filter is_write (new_events (store ''A0'')
     (snd (RegisterInitial demo ''bob'' ''hunter2'' (store ''A0'')))) = [] \<and>
   fst (Count (snd (RegisterInitial demo ''bob'' ''hunter2'' (store ''A0'')))) = (1, None) \<and>
   validate [] ''hunter2'' = Some (errors_New ''username can't be empty'') \<and>
   fst (RegisterInitial demo [] ''hunter2'' (store ''A0'')) =
     Some (errors_Wrap (errors_New ''username can't be empty'') ''invalid parameters'') \<and>
   Hash demo_nohash ''hunter2'' = Inl (ErrExternal ''password too long'') \<and>
   fst (RegisterInitial demo_nohash ''bob'' ''hunter2'' (store ''A0'')) =
     Some (errors_Wrap (ErrExternal ''password too long'') ''hashing the password failed'') \<and>
   Hash demo_nomarshal ''hunter2'' = Inr ''h:hunter2'' \<and>
   Marshal demo_nomarshal \<lparr>Username = ''bob'', Password = ''h:hunter2'', Sessions = []\<rparr> =
     Inl (ErrExternal ''json: unsupported value'') \<and>
   fst (RegisterInitial demo_nomarshal ''bob'' ''hunter2'' (store ''A0'')) =
     Some (errors_Wrap (ErrExternal ''json: unsupported value'') ''marshaling to json failed'')"
proof -
  let ?bob = "\<lparr>Username = ''bob'', Password = ''h:hunter2'', Sessions = []\<rparr>"
  let ?a = "RegisterInitial demo ''alice'' ''secret'' store_empty"
  let ?b = "RegisterInitial demo ''bob'' ''hunter2'' (store ''A0'')"
  let ?v = "RegisterInitial demo [] ''hunter2'' (store ''A0'')"
  let ?h = "RegisterInitial demo_nohash ''bob'' ''hunter2'' (store ''A0'')"
  let ?m = "RegisterInitial demo_nomarshal ''bob'' ''hunter2'' (store ''A0'')"
  have n: "''alice'' \<noteq> []" "''secret'' \<noteq> []" "''bob'' \<noteq> []" "''hunter2'' \<noteq> []"
    by simp_all
  have ha: "users store_empty = fmempty" "Hash demo ''secret'' = Inr ''h:secret''"
    "Marshal demo \<lparr>Username = ''alice'', Password = ''h:secret'', Sessions = []\<rparr> = Inr ''A0''"
    "length ''alice'' \<le> MaxKeySize" "length ''A0'' \<le> MaxValueSize" "Commit demo = None"
    by (simp_all add: demo_defs MaxKeySize_def MaxValueSize_def)
  have ne: "users (store ''A0'') \<noteq> fmempty"
    by (simp add: store_def flip: fmdom_empty_iff)
  have hb: "Hash demo ''hunter2'' = Inr ''h:hunter2''" "Marshal demo ?bob = Inr (put_user ?bob)"
    by (simp_all add: demo_defs)
  have hv: "validate [] ''hunter2'' = Some (errors_New ''username can't be empty'')"
    by (simp add: validate_def)
  have hh: "Hash demo_nohash ''hunter2'' = Inl (ErrExternal ''password too long'')"
    by (simp add: demo_defs)
  have hm: "Hash demo_nomarshal ''hunter2'' = Inr ''h:hunter2''"
    "Marshal demo_nomarshal ?bob = Inl (ErrExternal ''json: unsupported value'')"
    by (simp_all add: demo_defs)
  have s: "fmupd ''alice'' ''A0'' fmempty = users (store ''A0'')"
    by (simp add: store_def)
  have c: "fst (Count (store ''A0'')) = (1, None)"
    by (simp add: Count_value store_def fcard_finsert_if)
  have a: "fst ?a = None \<and> users (snd ?a) = users (store ''A0'') \<and> fst (Count (snd ?a)) = (1, None)"
    using RegisterInitial_only_on_empty_store
      [of demo "''alice''" "''secret''" store_empty "fst ?a" "snd ?a" "''h:secret''" "''A0''"]
      n ha s
    by simp
  have b: "fst ?b = Some (errors_New ''there are existing users'') \<and>
           users (snd ?b) = users (store ''A0'') \<and>
           filter is_write (new_events (store ''A0'') (snd ?b)) = [] \<and>
           fst (Count (snd ?b)) = (1, None)"
    using RegisterInitial_only_on_empty_store
      [of demo "''bob''" "''hunter2''" "store ''A0''" "fst ?b" "snd ?b" "''h:hunter2''"
          "put_user ?bob"]
      n ne hb c
    by simp
  have v: "fst ?v = Some (errors_Wrap (errors_New ''username can't be empty'') ''invalid parameters'')"
    using RegisterInitial_only_on_empty_store
      [of demo "[]" "''hunter2''" "store ''A0''" "fst ?v" "snd ?v" _ _
          "errors_New ''username can't be empty''"]
      ne hv
    by simp
  have h: "fst ?h = Some (errors_Wrap (ErrExternal ''password too long'') ''hashing the password failed'')"
    using RegisterInitial_only_on_empty_store
      [of demo_nohash "''bob''" "''hunter2''" "store ''A0''" "fst ?h" "snd ?h" _ _
          "ErrExternal ''password too long''"]
      n ne hh
    by simp
  have m: "fst ?m = Some (errors_Wrap (ErrExternal ''json: unsupported value'') ''marshaling to json failed'')"
    using RegisterInitial_only_on_empty_store
      [of demo_nomarshal "''bob''" "''hunter2''" "store ''A0''" "fst ?m" "snd ?m" "''h:hunter2''" _
          "ErrExternal ''json: unsupported value''"]
      n ne hm
    by simp
  from ha ne hb hv hh hm a b v h m show ?thesis by blast
qed

text \<open>
  Without these provisos both halves of C1 fail. On a bucket that holds a user, an empty
  username is refused by \<open>validate\<close>, so the error is not the one of the conflict; on an
  empty bucket, a hasher that rejects the password makes the registration fail although
  username and password are non-empty.
\<close>

theorem RegisterInitial_conflict_counterexample:
  "users (store ''A0'') \<noteq> fmempty \<and>
   RegisterInitial demo [] ''x'' (store ''A0'') =
     (Some (errors_Wrap (errors_New ''username can't be empty'') ''invalid parameters''), store ''A0'') \<and>
   fst (RegisterInitial demo [] ''x'' (store ''A0'')) \<noteq> Some (errors_New ''there are existing users'') \<and>
   users store_empty = fmempty \<and>
   RegisterInitial demo_nohash ''alice'' ''secret'' store_empty =
     (Some (errors_Wrap (ErrExternal ''password too long'') ''hashing the password failed''),
      \<lparr>users = fmempty, trace = [EvHash ''secret'']\<rparr>)"
  by (simp add: repo_defs demo_defs flip: fmdom_empty_iff)

subsection \<open>C2: validation comes first\<close>

text \<open>
  C2. When the username or the password is empty, \<open>RegisterInitial\<close> and \<open>Login\<close> both
  return the error of \<open>validate\<close>, wrapped as \<open>invalid parameters\<close>, and hand back the
  very state they were given: the trace has no new event (no transaction is begun, no key
  is read or written, the hasher and the generator are not called) and \<open>Count\<close> returns
  what it returned before.
\<close>

theorem validate_rejects_before_any_effect:
  assumes "username = [] \<or> password = []"
  shows "\<exists>e. validate username password = Some e \<and>
           (e = errors_New ''username can't be empty'' \<or> e = errors_New ''password can't be empty'') \<and>
           RegisterInitial r username password w = (Some (errors_Wrap e ''invalid parameters''), w) \<and>
           Login r username password w = (([], Some (errors_Wrap e ''invalid parameters'')), w) \<and>
           new_events w (snd (RegisterInitial r username password w)) = [] \<and>
           new_events w (snd (Login r username password w)) = [] \<and>
           fst (Count (snd (RegisterInitial r username password w))) = fst (Count w) \<and>
           fst (Count (snd (Login r username password w))) = fst (Count w)"
  using assms by (auto simp: validate_def RegisterInitial_def Login_def new_events_def)

theorem validate_rejects_before_any_effect_witness:
  "RegisterInitial demo [] ''x'' store_empty =
     (Some (errors_Wrap (errors_New ''username can't be empty'') ''invalid parameters''), store_empty) \<and>
   RegisterInitial demo ''x'' [] store_empty =
     (Some (errors_Wrap (errors_New ''password can't be empty'') ''invalid parameters''), store_empty) \<and>
   Login demo ''x'' [] store_empty =
     (([], Some (errors_Wrap (errors_New ''password can't be empty'') ''invalid parameters'')), store_empty) \<and>
   fst (Count (snd (RegisterInitial demo [] ''x'' store_empty))) = (0, None)"
  using validate_rejects_before_any_effect [of "[]" "''x''" demo store_empty]
        validate_rejects_before_any_effect [of "''x''" "[]" demo store_empty]
  by (simp add: validate_def Count_value store_empty_def)

subsection \<open>C3: a failed login changes nothing\<close>

text \<open>
  C3. Whatever the state, the collaborators, the username and the password: when \<open>Login\<close>
  returns an error (from validation, a missing user, an unreadable record, a password
  mismatch, the token generator, serialization, \<open>Put\<close> or the commit), the bucket is
  exactly what it was before the call, so every stored record is unchanged, and the token
  returned is the empty one.
\<close>

theorem Login_failure_changes_nothing:
  assumes "Login r username password w = ((token, Some err), w')"
  shows "users w' = users w \<and> token = []"
proof (cases "validate username password")
  case (Some e)
  with assms show ?thesis by (simp add: Login_def)
next
  case None
  obtain res t w1 where d: "db_Update r (Login_tx r username password) w = (res, t, w1)"
    by (cases "db_Update r (Login_tx r username password) w") auto
  show ?thesis
  proof (cases res)
    case None
    with assms \<open>validate username password = None\<close> d show ?thesis by (simp add: Login_def)
  next
    case (Some e)
    with assms \<open>validate username password = None\<close> d have "w' = w1" and "token = []"
      by (simp_all add: Login_def)
    moreover from d Some have "users w1 = users w" by (auto dest: db_Update_error)
    ultimately show ?thesis by simp
  qed
qed

theorem Login_failure_changes_nothing_witness:
  "Login demo ''alice'' ''wrong'' (store ''A0'') =
     (([], Some (errors_Wrap (errors_Wrap (ErrExternal ''mismatch'') ''invalid credentials'')
                   ''transaction failed'')),
      snd (Login demo ''alice'' ''wrong'' (store ''A0''))) \<and>
   users (snd (Login demo ''alice'' ''wrong'' (store ''A0''))) = users (store ''A0'')"
  using Login_failure_changes_nothing [of demo "''alice''" "''wrong''" "store ''A0''" "[]"
      "errors_Wrap (errors_Wrap (ErrExternal ''mismatch'') ''invalid credentials'') ''transaction failed''"
      "snd (Login demo ''alice'' ''wrong'' (store ''A0''))"]
  by (simp add: repo_defs demo_defs)

subsection \<open>C4: a successful login appends one session\<close>

text \<open>
  C4, as the code has it. Let the record \<open>u\<close> be stored (as \<open>j\<close>) under \<open>username\<close>, let
  the password be non-empty and accepted by \<open>Compare\<close> against the stored hash, let
  \<open>Generate username\<close> return the token \<open>t\<close>, let the codec return \<open>j'\<close> for \<open>u\<close> with
  the session (\<open>t\<close>, zero time) appended to its sessions, let key and value be within the
  size limits and let the commit succeed. Then \<open>Login\<close> returns \<open>t\<close> and no error, the
  bucket is the old one with \<open>j'\<close> under \<open>username\<close>, and the call has made exactly one
  call of \<open>Generate\<close> (for \<open>username\<close>) and one \<open>Put\<close>. The sessions stored before are a
  prefix of the new list, unchanged and in order.
\<close>

theorem Login_appends_one_session:
  assumes "username \<noteq> []" and "password \<noteq> []"
    and "fmlookup (users w) username = Some j" and "Unmarshal r j = Inr u"
    and "Compare r (Password u) password = None"
    and "Generate r username = Inr t"
    and "Marshal r (u\<lparr>Sessions := Sessions u @ [\<lparr>Token = t, LastSeen = zero_time\<rparr>]\<rparr>) = Inr j'"
    and "length username \<le> MaxKeySize" and "length j' \<le> MaxValueSize"
    and "Commit r = None"
  shows "fst (Login r username password w) = (t, None) \<and>
         users (snd (Login r username password w)) = fmupd username j' (users w) \<and>
         new_events w (snd (Login r username password w)) =
           [EvBegin True, EvGet username, EvCompare (Password u) password,
            EvGenerate username, EvPut username j', EvCommit]"
  using assms
  by (simp add: Login_def Login_tx_def validate_def db_Update_def bucket_Get_def bucket_Put_def
      emit_def new_events_def)

theorem Login_appends_one_session_witness:
  "fmlookup (users (store ''A0'')) ''alice'' = Some ''A0'' \<and>
   Unmarshal demo ''A0'' = Inr alice0 \<and>
   Compare demo (Password alice0) ''secret'' = None \<and>
   Generate demo ''alice'' = Inr ''tok-alice'' \<and>
   Marshal demo (alice0\<lparr>Sessions := Sessions alice0 @ [\<lparr>Token = ''tok-alice'', LastSeen = zero_time\<rparr>]\<rparr>)
     = Inr ''A1'' \<and>
   fst (Login demo ''alice'' ''secret'' (store ''A0'')) = (''tok-alice'', None) \<and>
   users (snd (Login demo ''alice'' ''secret'' (store ''A0''))) = users (store ''A1'')"
proof -
  have h: "''alice'' \<noteq> []" "''secret'' \<noteq> []"
    "fmlookup (users (store ''A0'')) ''alice'' = Some ''A0''"
    "Unmarshal demo ''A0'' = Inr alice0"
    "Compare demo (Password alice0) ''secret'' = None"
    "Generate demo ''alice'' = Inr ''tok-alice''"
    "Marshal demo (alice0\<lparr>Sessions := Sessions alice0 @ [\<lparr>Token = ''tok-alice'', LastSeen = zero_time\<rparr>]\<rparr>)
       = Inr ''A1''"
    "length ''alice'' \<le> MaxKeySize" "length ''A1'' \<le> MaxValueSize"
    "Commit demo = None"
    by (simp_all add: demo_defs zero_time_def MaxKeySize_def MaxValueSize_def)
  have s: "fmupd ''alice'' ''A1'' (users (store ''A0'')) = users (store ''A1'')"
    by (simp add: store_def)
  from Login_appends_one_session [OF h] h s show ?thesis by simp
qed

text \<open>
  Without the provisos C4 fails: with a generator that returns an error, a login with the
  matching password appends nothing and returns no token; and a stored hash that the empty
  password matches does not make a login with the empty password succeed, as validation
  refuses it first.
\<close>

theorem Login_session_counterexample:
  "fmlookup (users (store ''A0'')) ''alice'' = Some ''A0'' \<and>
   Unmarshal demo_nogen ''A0'' = Inr alice0 \<and>
   Compare demo_nogen (Password alice0) ''secret'' = None \<and>
   Login demo_nogen ''alice'' ''secret'' (store ''A0'') =
     (([], Some (errors_Wrap (errors_Wrap (ErrExternal ''no entropy'')
                   ''could not create an access token'') ''transaction failed'')),
      \<lparr>users = users (store ''A0''),
       trace = [EvBegin True, EvGet ''alice'', EvCompare ''h:secret'' ''secret'',
                EvGenerate ''alice'', EvRollback]\<rparr>) \<and>
   fmlookup (users (store ''B0'')) ''alice'' = Some ''B0'' \<and>
   Unmarshal demo ''B0'' = Inr alice_blank \<and>
   Compare demo (Password alice_blank) [] = None \<and>
   Login demo ''alice'' [] (store ''B0'') =
     (([], Some (errors_Wrap (errors_New ''password can't be empty'') ''invalid parameters'')),
      store ''B0'')"
  by (simp add: repo_defs demo_defs)

subsection \<open>C5: the two credential failures of login\<close>

text \<open>
  C5, as the code has it. A login for a username without a record and a login whose
  password \<open>Compare\<close> rejects (with the error \<open>e\<close>) both return the empty token, both leave
  the bucket unchanged and both wrap their error as \<open>transaction failed\<close>; but the wrapped
  errors are \<open>user does not exist\<close> in the first case and \<open>e\<close> wrapped as
  \<open>invalid credentials\<close> in the second, so the two returned errors are never equal.
\<close>

theorem Login_credential_failures_differ:
  assumes "username1 \<noteq> []" and "password1 \<noteq> []" and "fmlookup (users w) username1 = None"
    and "username2 \<noteq> []" and "password2 \<noteq> []" and "fmlookup (users w) username2 = Some j"
    and "Unmarshal r j = Inr u" and "Compare r (Password u) password2 = Some e"
  shows "fst (Login r username1 password1 w) =
           ([], Some (errors_Wrap (errors_New ''user does not exist'') ''transaction failed'')) \<and>
         fst (Login r username2 password2 w) =
           ([], Some (errors_Wrap (errors_Wrap e ''invalid credentials'') ''transaction failed'')) \<and>
         users (snd (Login r username1 password1 w)) = users w \<and>
         users (snd (Login r username2 password2 w)) = users w \<and>
         snd (fst (Login r username1 password1 w)) \<noteq> snd (fst (Login r username2 password2 w))"
proof -
  have 1: "Login r username1 password1 w =
      (([], Some (errors_Wrap (errors_New ''user does not exist'') ''transaction failed'')),
       emit EvRollback (emit (EvGet username1) (emit (EvBegin True) w)))"
    using assms(1-3)
    by (simp add: Login_def Login_tx_def validate_def db_Update_def bucket_Get_def emit_def)
  have 2: "Login r username2 password2 w =
      (([], Some (errors_Wrap (errors_Wrap e ''invalid credentials'') ''transaction failed'')),
       emit EvRollback (emit (EvCompare (Password u) password2)
         (emit (EvGet username2) (emit (EvBegin True) w))))"
    using assms(4-8)
    by (simp add: Login_def Login_tx_def validate_def db_Update_def bucket_Get_def emit_def)
  show ?thesis unfolding 1 2 by (simp add: emit_def)
qed

theorem Login_credential_failures_differ_witness:
  "fmlookup (users (store ''A0'')) ''bob'' = None \<and>
   fmlookup (users (store ''A0'')) ''alice'' = Some ''A0'' \<and>
   Unmarshal demo ''A0'' = Inr alice0 \<and>
   Compare demo (Password alice0) ''wrong'' = Some (ErrExternal ''mismatch'') \<and>
   fst (Login demo ''bob'' ''secret'' (store ''A0'')) =
     ([], Some (errors_Wrap (errors_New ''user does not exist'') ''transaction failed'')) \<and>
   fst (Login demo ''alice'' ''wrong'' (store ''A0'')) =
     ([], Some (errors_Wrap (errors_Wrap (ErrExternal ''mismatch'') ''invalid credentials'')
                  ''transaction failed''))"
proof -
  have h: "''bob'' \<noteq> []" "''secret'' \<noteq> []" "fmlookup (users (store ''A0'')) ''bob'' = None"
    "''alice'' \<noteq> []" "''wrong'' \<noteq> []" "fmlookup (users (store ''A0'')) ''alice'' = Some ''A0''"
    "Unmarshal demo ''A0'' = Inr alice0"
    "Compare demo (Password alice0) ''wrong'' = Some (ErrExternal ''mismatch'')"
    by (simp_all add: demo_defs)
  from Login_credential_failures_differ [OF h] h show ?thesis by blast
qed

text \<open>
  Hence C5 as first stated, that the caller gets the same error in both cases, fails:
\<close>

theorem Login_same_error_counterexample:
  "fmlookup (users (store ''A0'')) ''bob'' = None \<and>
   snd (fst (Login demo ''bob'' ''secret'' (store ''A0''))) =
     Some (errors_Wrap (errors_New ''user does not exist'') ''transaction failed'') \<and>
   fmlookup (users (store ''A0'')) ''alice'' = Some ''A0'' \<and>
   Unmarshal demo ''A0'' = Inr alice0 \<and>
   Compare demo (Password alice0) ''wrong'' \<noteq> None \<and>
   snd (fst (Login demo ''alice'' ''wrong'' (store ''A0''))) =
     Some (errors_Wrap (errors_Wrap (ErrExternal ''mismatch'') ''invalid credentials'')
             ''transaction failed'') \<and>
   snd (fst (Login demo ''bob'' ''secret'' (store ''A0''))) \<noteq>
   snd (fst (Login demo ''alice'' ''wrong'' (store ''A0'')))"
  by (simp add: repo_defs demo_defs)

subsection \<open>C6: a valid token marks its session as seen\<close>

text \<open>
  C6, as the code has it. Let the generator resolve the token to \<open>username\<close>, let the
  record \<open>u\<close> stored under \<open>username\<close> carry that username, and let \<open>i\<close> be the first
  index of a session of \<open>u\<close> with this token. Provided the codec returns \<open>j'\<close> for \<open>u\<close>
  with \<open>LastSeen\<close> of session \<open>i\<close> set to the clock reading, key and value are within the
  size limits and the commit succeeds, \<open>CheckAccessToken\<close> returns no error and the view
  that carries the username and nothing else, and the bucket is the old one with \<open>j'\<close>
  under \<open>username\<close>. (The code takes the key of the write from the record, \<open>putUser\<close>
  writing under \<open>u.Username\<close>; for a record stored under its own username that is the
  resolved username.)
\<close>

theorem CheckAccessToken_marks_session_seen:
  assumes "GetUsername r token = Inr username"
    and "fmlookup (users w) username = Some j" and "Unmarshal r j = Inr u"
    and "Username u = username"
    and "i < length (Sessions u)" and "Token (Sessions u ! i) = token"
    and "\<forall>k<i. Token (Sessions u ! k) \<noteq> token"
    and "Marshal r (u\<lparr>Sessions := (Sessions u)[i := (Sessions u ! i)\<lparr>LastSeen := Now r\<rparr>]\<rparr>) = Inr j'"
    and "username \<noteq> []" and "length username \<le> MaxKeySize"
    and "length j' \<le> MaxValueSize" and "Commit r = None"
  shows "fst (CheckAccessToken r token w) = (\<lparr>auth_Username = username\<rparr>, None) \<and>
         users (snd (CheckAccessToken r token w)) = fmupd username j' (users w) \<and>
         new_events w (snd (CheckAccessToken r token w)) =
           [EvGetUsername token, EvBegin True, EvGet username, EvNow,
            EvPut username j', EvCommit]"
proof -
  from assms(5-7) have "findSession (Sessions u) token 0 = Some i"
    by (auto simp: findSession_Some)
  with assms show ?thesis
    by (simp add: CheckAccessToken_def CheckAccessToken_tx_def getUser_def putUser_def
        db_Update_def bucket_Get_def bucket_Put_def emit_def new_events_def)
qed

theorem CheckAccessToken_marks_session_seen_witness:
  "GetUsername demo ''tok-alice'' = Inr ''alice'' \<and>
   fmlookup (users (store ''A1'')) ''alice'' = Some ''A1'' \<and>
   Unmarshal demo ''A1'' = Inr alice1 \<and>
   Username alice1 = ''alice'' \<and>
   Token (Sessions alice1 ! 0) = ''tok-alice'' \<and>
   Marshal demo (alice1\<lparr>Sessions := (Sessions alice1)[0 := (Sessions alice1 ! 0)\<lparr>LastSeen := Now demo\<rparr>]\<rparr>)
     = Inr ''A2'' \<and>
   Unmarshal demo ''A2'' = Inr alice2 \<and>
   fst (CheckAccessToken demo ''tok-alice'' (store ''A1'')) = (\<lparr>auth_Username = ''alice''\<rparr>, None) \<and>
   users (snd (CheckAccessToken demo ''tok-alice'' (store ''A1''))) = users (store ''A2'')"
proof -
  have h: "GetUsername demo ''tok-alice'' = Inr ''alice''"
    "fmlookup (users (store ''A1'')) ''alice'' = Some ''A1''"
    "Unmarshal demo ''A1'' = Inr alice1"
    "Username alice1 = ''alice''"
    "0 < length (Sessions alice1)" "Token (Sessions alice1 ! 0) = ''tok-alice''"
    "\<forall>k<0. Token (Sessions alice1 ! k) \<noteq> ''tok-alice''"
    "Marshal demo (alice1\<lparr>Sessions := (Sessions alice1)[0 := (Sessions alice1 ! 0)\<lparr>LastSeen := Now demo\<rparr>]\<rparr>)
       = Inr ''A2''"
    "''alice'' \<noteq> []" "length ''alice'' \<le> MaxKeySize"
    "length ''A2'' \<le> MaxValueSize" "Commit demo = None"
    by (simp_all add: demo_defs MaxKeySize_def MaxValueSize_def)
  have s: "Unmarshal demo ''A2'' = Inr alice2"
    "fmupd ''alice'' ''A2'' (users (store ''A1'')) = users (store ''A2'')"
    by (simp_all add: demo_defs)
  from CheckAccessToken_marks_session_seen [OF h] h s show ?thesis by simp
qed

text \<open>
  Without the provisos C6 fails: when the commit returns an error, a token that resolves
  to a user with a matching session is answered with that error and the empty view, and
  nothing is persisted.
\<close>

theorem CheckAccessToken_persists_counterexample:
  "GetUsername demo_nocommit ''tok-alice'' = Inr ''alice'' \<and>
   fmlookup (users (store ''A1'')) ''alice'' = Some ''A1'' \<and>
   Unmarshal demo_nocommit ''A1'' = Inr alice1 \<and>
   Username alice1 = ''alice'' \<and>
   Token (Sessions alice1 ! 0) = ''tok-alice'' \<and>
   fst (CheckAccessToken demo_nocommit ''tok-alice'' (store ''A1'')) =
     (auth_User_zero, Some (errors_Wrap (ErrExternal ''disk full'') ''transaction failed'')) \<and>
   users (snd (CheckAccessToken demo_nocommit ''tok-alice'' (store ''A1''))) = users (store ''A1'')"
  by (simp add: repo_defs demo_defs)

subsection \<open>C7: tokens that are turned down\<close>

text \<open>
  C7. Let \<open>CheckAccessToken\<close> return the view \<open>view\<close> and the error \<open>res\<close>, and leave
  the state \<open>w'\<close>.
  \<^item> When the generator cannot resolve the token, the view is the empty one, the error is
    \<open>ErrUnauthorized\<close>, the bucket is unchanged and no transaction is begun.
  \<^item> When the token resolves to a username without a record, the view is the empty one,
    the error is \<open>ErrUnauthorized\<close> wrapped as \<open>transaction failed\<close> (its cause is
    \<open>ErrUnauthorized\<close>), the bucket is unchanged and no \<open>Put\<close> is attempted.
  \<^item> When the token resolves to a user none of whose sessions has this token, the call
    fails as well, with \<open>invalid token\<close> wrapped as \<open>transaction failed\<close>, the empty
    view, the bucket unchanged and no \<open>Put\<close> attempted.
\<close>

theorem CheckAccessToken_rejects_unknown_tokens:
  assumes "CheckAccessToken r token w = ((view, res), w')"
  shows "(GetUsername r token = Inl e \<longrightarrow>
            view = auth_User_zero \<and> res = Some ErrUnauthorized \<and>
            users w' = users w \<and> filter is_tx (new_events w w') = []) \<and>
         (GetUsername r token = Inr username \<and> fmlookup (users w) username = None \<longrightarrow>
            view = auth_User_zero \<and>
            res = Some (errors_Wrap ErrUnauthorized ''transaction failed'') \<and>
            cause (errors_Wrap ErrUnauthorized ''transaction failed'') = ErrUnauthorized \<and>
            users w' = users w \<and> filter is_write (new_events w w') = []) \<and>
         (GetUsername r token = Inr username \<and> fmlookup (users w) username = Some j \<and>
          Unmarshal r j = Inr u \<and> token \<notin> Token ` set (Sessions u) \<longrightarrow>
            view = auth_User_zero \<and>
            res = Some (errors_Wrap (errors_New ''invalid token'') ''transaction failed'') \<and>
            users w' = users w \<and> filter is_write (new_events w w') = [])"
proof -
  have a: "view = auth_User_zero \<and> res = Some ErrUnauthorized \<and>
           users w' = users w \<and> filter is_tx (new_events w w') = []"
    if "GetUsername r token = Inl e"
    using assms that by (auto simp: CheckAccessToken_def emit_def new_events_def)
  have b: "view = auth_User_zero \<and>
           res = Some (errors_Wrap ErrUnauthorized ''transaction failed'') \<and>
           cause (errors_Wrap ErrUnauthorized ''transaction failed'') = ErrUnauthorized \<and>
           users w' = users w \<and> filter is_write (new_events w w') = []"
    if "GetUsername r token = Inr username" "fmlookup (users w) username = None"
    using assms that
    by (auto simp: CheckAccessToken_def CheckAccessToken_tx_def getUser_def db_Update_def
        bucket_Get_def emit_def new_events_def)
  have c: "view = auth_User_zero \<and>
           res = Some (errors_Wrap (errors_New ''invalid token'') ''transaction failed'') \<and>
           users w' = users w \<and> filter is_write (new_events w w') = []"
    if "GetUsername r token = Inr username" "fmlookup (users w) username = Some j"
       "Unmarshal r j = Inr u" "token \<notin> Token ` set (Sessions u)"
  proof -
    from that(4) have "findSession (Sessions u) token 0 = None"
      by (simp add: findSession_None)
    with assms that(1-3) show ?thesis
      by (auto simp: CheckAccessToken_def CheckAccessToken_tx_def getUser_def db_Update_def
          bucket_Get_def emit_def new_events_def)
  qed
  from a b c show ?thesis by blast
qed

theorem CheckAccessToken_rejects_unknown_tokens_witness:
  "GetUsername demo ''garbage-token'' = Inl (ErrExternal ''malformed token'') \<and>
   fst (CheckAccessToken demo ''garbage-token'' (store ''A1'')) = (auth_User_zero, Some ErrUnauthorized) \<and>
   users (snd (CheckAccessToken demo ''garbage-token'' (store ''A1''))) = users (store ''A1'') \<and>
   GetUsername demo ''tok-bob'' = Inr ''bob'' \<and> fmlookup (users (store ''A1'')) ''bob'' = None \<and>
   fst (CheckAccessToken demo ''tok-bob'' (store ''A1'')) =
     (auth_User_zero, Some (errors_Wrap ErrUnauthorized ''transaction failed'')) \<and>
   users (snd (CheckAccessToken demo ''tok-bob'' (store ''A1''))) = users (store ''A1'') \<and>
   GetUsername demo ''tok-alice'' = Inr ''alice'' \<and>
   fmlookup (users (store ''A0'')) ''alice'' = Some ''A0'' \<and> Unmarshal demo ''A0'' = Inr alice0 \<and>
   ''tok-alice'' \<notin> Token ` set (Sessions alice0) \<and>
   fst (CheckAccessToken demo ''tok-alice'' (store ''A0'')) =
     (auth_User_zero, Some (errors_Wrap (errors_New ''invalid token'') ''transaction failed'')) \<and>
   users (snd (CheckAccessToken demo ''tok-alice'' (store ''A0''))) = users (store ''A0'')"
proof -
  let ?a = "CheckAccessToken demo ''garbage-token'' (store ''A1'')"
  let ?b = "CheckAccessToken demo ''tok-bob'' (store ''A1'')"
  let ?c = "CheckAccessToken demo ''tok-alice'' (store ''A0'')"
  have ha: "GetUsername demo ''garbage-token'' = Inl (ErrExternal ''malformed token'')"
    by (simp add: demo_defs)
  have hb: "GetUsername demo ''tok-bob'' = Inr ''bob''" "fmlookup (users (store ''A1'')) ''bob'' = None"
    by (simp_all add: demo_defs)
  have hc: "GetUsername demo ''tok-alice'' = Inr ''alice''"
    "fmlookup (users (store ''A0'')) ''alice'' = Some ''A0''" "Unmarshal demo ''A0'' = Inr alice0"
    "''tok-alice'' \<notin> Token ` set (Sessions alice0)"
    by (simp_all add: demo_defs)
  have a: "fst ?a = (auth_User_zero, Some ErrUnauthorized) \<and> users (snd ?a) = users (store ''A1'')"
    using CheckAccessToken_rejects_unknown_tokens
      [of demo "''garbage-token''" "store ''A1''" "fst (fst ?a)" "snd (fst ?a)" "snd ?a"
          "ErrExternal ''malformed token''"] ha
    by (simp add: prod_eq_iff)
  have b: "fst ?b = (auth_User_zero, Some (errors_Wrap ErrUnauthorized ''transaction failed'')) \<and>
           users (snd ?b) = users (store ''A1'')"
    using CheckAccessToken_rejects_unknown_tokens
      [of demo "''tok-bob''" "store ''A1''" "fst (fst ?b)" "snd (fst ?b)" "snd ?b" _ "''bob''"] hb
    by (simp add: prod_eq_iff)
  have c: "fst ?c = (auth_User_zero, Some (errors_Wrap (errors_New ''invalid token'') ''transaction failed'')) \<and>
           users (snd ?c) = users (store ''A0'')"
    using CheckAccessToken_rejects_unknown_tokens
      [of demo "''tok-alice''" "store ''A0''" "fst (fst ?c)" "snd (fst ?c)" "snd ?c" _ "''alice''"
          "''A0''" alice0] hc
    by (simp add: prod_eq_iff)
  from ha hb hc a b c show ?thesis by blast
qed

subsection \<open>C8: what a successful check changes\<close>

text \<open>
  C8, as the code has it. Let \<open>CheckAccessToken\<close> succeed for a token that resolves to
  \<open>username\<close>, and let the record \<open>u\<close> stored under \<open>username\<close> carry that username.
  Then the call replaces the document under \<open>username\<close> by that of a record \<open>u'\<close> and
  changes no other key of the bucket, and \<open>u'\<close> differs from \<open>u\<close> in the \<open>LastSeen\<close> of
  one session with this token and in nothing else: username and password hash are the
  same, the list of sessions has the same length (no session is added or duplicated),
  every other session is the same value, token and time, byte for byte, and the session
  itself keeps its token. Its new \<open>LastSeen\<close> is the clock reading of this call, whatever
  the value stored before: the code does not compare the two, so over repeated calls the
  values are non-decreasing exactly as far as the clock readings are.
\<close>

theorem CheckAccessToken_changes_only_lastSeen:
  assumes "CheckAccessToken r token w = ((view, None), w')"
    and "GetUsername r token = Inr username"
    and "fmlookup (users w) username = Some j" and "Unmarshal r j = Inr u"
    and "Username u = username"
  shows "\<exists>i u' j'. i < length (Sessions u) \<and> Token (Sessions u ! i) = token \<and>
           Marshal r u' = Inr j' \<and> users w' = fmupd username j' (users w) \<and>
           fmlookup (users w') username = Some j' \<and>
           (\<forall>k. k \<noteq> username \<longrightarrow> fmlookup (users w') k = fmlookup (users w) k) \<and>
           Username u' = Username u \<and> Password u' = Password u \<and>
           length (Sessions u') = length (Sessions u) \<and>
           (\<forall>k<length (Sessions u). k \<noteq> i \<longrightarrow> Sessions u' ! k = Sessions u ! k) \<and>
           Sessions u' ! i = (Sessions u ! i)\<lparr>LastSeen := Now r\<rparr> \<and>
           Token (Sessions u' ! i) = token \<and> LastSeen (Sessions u' ! i) = Now r"
proof -
  from CheckAccessToken_ok [OF assms(1)] assms(2-5) obtain i j' where
    f: "findSession (Sessions u) token 0 = Some i"
    and m: "Marshal r (u\<lparr>Sessions := (Sessions u)[i := (Sessions u ! i)\<lparr>LastSeen := Now r\<rparr>]\<rparr>) = Inr j'"
    and s: "users w' = fmupd username j' (users w)"
    by auto
  from f have i: "i < length (Sessions u)" "Token (Sessions u ! i) = token"
    by (auto simp: findSession_Some)
  let ?u' = "u\<lparr>Sessions := (Sessions u)[i := (Sessions u ! i)\<lparr>LastSeen := Now r\<rparr>]\<rparr>"
  from i m s have "i < length (Sessions u) \<and> Token (Sessions u ! i) = token \<and>
           Marshal r ?u' = Inr j' \<and> users w' = fmupd username j' (users w) \<and>
           fmlookup (users w') username = Some j' \<and>
           (\<forall>k. k \<noteq> username \<longrightarrow> fmlookup (users w') k = fmlookup (users w) k) \<and>
           Username ?u' = Username u \<and> Password ?u' = Password u \<and>
           length (Sessions ?u') = length (Sessions u) \<and>
           (\<forall>k<length (Sessions u). k \<noteq> i \<longrightarrow> Sessions ?u' ! k = Sessions u ! k) \<and>
           Sessions ?u' ! i = (Sessions u ! i)\<lparr>LastSeen := Now r\<rparr> \<and>
           Token (Sessions ?u' ! i) = token \<and> LastSeen (Sessions ?u' ! i) = Now r"
    by simp
  then show ?thesis by blast
qed

theorem CheckAccessToken_changes_only_lastSeen_witness:
  "fst (CheckAccessToken demo ''tok-alice'' (store ''M0'')) = (\<lparr>auth_Username = ''alice''\<rparr>, None) \<and>
   GetUsername demo ''tok-alice'' = Inr ''alice'' \<and>
   fmlookup (users (store ''M0'')) ''alice'' = Some ''M0'' \<and>
   Unmarshal demo ''M0'' = Inr alice_multi \<and>
   Username alice_multi = ''alice'' \<and>
   Sessions alice_multi =
     [\<lparr>Token = ''tok-laptop'', LastSeen = 7\<rparr>, \<lparr>Token = ''tok-alice'', LastSeen = 0\<rparr>,
      \<lparr>Token = ''tok-phone'', LastSeen = 3\<rparr>] \<and>
   (\<exists>u'. Marshal demo u' = Inr ''M1'' \<and>
      users (snd (CheckAccessToken demo ''tok-alice'' (store ''M0''))) =
        fmupd ''alice'' ''M1'' (users (store ''M0'')) \<and>
      Username u' = ''alice'' \<and> Password u' = ''h:secret'' \<and>
      Sessions u' =
        [\<lparr>Token = ''tok-laptop'', LastSeen = 7\<rparr>, \<lparr>Token = ''tok-alice'', LastSeen = 1000\<rparr>,
         \<lparr>Token = ''tok-phone'', LastSeen = 3\<rparr>])"
proof -
  let ?c = "CheckAccessToken demo ''tok-alice'' (store ''M0'')"
  have v: "fst ?c = (\<lparr>auth_Username = ''alice''\<rparr>, None)"
    by (simp add: repo_defs demo_defs)
  then have run: "?c = ((\<lparr>auth_Username = ''alice''\<rparr>, None), snd ?c)"
    by (simp add: prod_eq_iff)
  have h: "GetUsername demo ''tok-alice'' = Inr ''alice''"
    "fmlookup (users (store ''M0'')) ''alice'' = Some ''M0''"
    "Unmarshal demo ''M0'' = Inr alice_multi"
    "Username alice_multi = ''alice''"
    by (simp_all add: demo_defs)
  have ss: "Sessions alice_multi =
     [\<lparr>Token = ''tok-laptop'', LastSeen = 7\<rparr>, \<lparr>Token = ''tok-alice'', LastSeen = 0\<rparr>,
      \<lparr>Token = ''tok-phone'', LastSeen = 3\<rparr>]"
    by (simp add: alice_multi_def)
  from CheckAccessToken_changes_only_lastSeen [OF run h] obtain i u' j' where
    i: "i < length (Sessions alice_multi)" "Token (Sessions alice_multi ! i) = ''tok-alice''"
    and f: "Marshal demo u' = Inr j'"
      "users (snd ?c) = fmupd ''alice'' j' (users (store ''M0''))"
      "Username u' = Username alice_multi" "Password u' = Password alice_multi"
    and l: "length (Sessions u') = length (Sessions alice_multi)"
    and o: "\<forall>k<length (Sessions alice_multi). k \<noteq> i \<longrightarrow> Sessions u' ! k = Sessions alice_multi ! k"
    and n: "Sessions u' ! i = (Sessions alice_multi ! i)\<lparr>LastSeen := Now demo\<rparr>"
    by blast
  from i have i1: "i = 1"
    by (auto simp: ss less_Suc_eq numeral_3_eq_3 nth_Cons')
  from o have o0: "Sessions u' ! 0 = \<lparr>Token = ''tok-laptop'', LastSeen = 7\<rparr>"
    and o2: "Sessions u' ! 2 = \<lparr>Token = ''tok-phone'', LastSeen = 3\<rparr>"
    unfolding i1 by (simp_all add: ss)
  from n have n1: "Sessions u' ! 1 = \<lparr>Token = ''tok-alice'', LastSeen = 1000\<rparr>"
    unfolding i1 by (simp add: ss demo_def)
  from l obtain a b c where abc: "Sessions u' = [a, b, c]"
    by (cases "Sessions u'"; cases "tl (Sessions u')"; cases "tl (tl (Sessions u'))")
       (auto simp: ss)
  with o0 n1 o2 have su: "Sessions u' =
        [\<lparr>Token = ''tok-laptop'', LastSeen = 7\<rparr>, \<lparr>Token = ''tok-alice'', LastSeen = 1000\<rparr>,
         \<lparr>Token = ''tok-phone'', LastSeen = 3\<rparr>]"
    by simp
  from f(3,4) have np: "Username u' = ''alice''" "Password u' = ''h:secret''"
    by (simp_all add: alice_multi_def)
  with su have "u' = alice_multi_seen"
    by (cases u') (simp add: alice_multi_seen_def)
  with f(1) have "j' = ''M1''" by (simp add: demo_defs)
  with f su np have "Marshal demo u' = Inr ''M1'' \<and>
      users (snd ?c) = fmupd ''alice'' ''M1'' (users (store ''M0'')) \<and>
      Username u' = ''alice'' \<and> Password u' = ''h:secret'' \<and>
      Sessions u' =
        [\<lparr>Token = ''tok-laptop'', LastSeen = 7\<rparr>, \<lparr>Token = ''tok-alice'', LastSeen = 1000\<rparr>,
         \<lparr>Token = ''tok-phone'', LastSeen = 3\<rparr>]"
    by simp
  with v h ss show ?thesis by blast
qed

text \<open>
  The unconditional monotonicity of C8 fails: a second check whose clock reading is
  earlier than that of the first (the wall clock was set back in between) stores the
  earlier time.
\<close>

theorem CheckAccessToken_monotone_counterexample:
  "Now demo = 1000 \<and> Now demo_back = 500 \<and>
   fst (CheckAccessToken demo ''tok-alice'' (store ''A1'')) = (\<lparr>auth_Username = ''alice''\<rparr>, None) \<and>
   fmlookup (users (snd (CheckAccessToken demo ''tok-alice'' (store ''A1'')))) ''alice'' = Some ''A2'' \<and>
   Unmarshal demo ''A2'' = Inr alice2 \<and>
   LastSeen (Sessions alice2 ! 0) = 1000 \<and>
   fst (CheckAccessToken demo_back ''tok-alice''
          (snd (CheckAccessToken demo ''tok-alice'' (store ''A1'')))) =
     (\<lparr>auth_Username = ''alice''\<rparr>, None) \<and>
   fmlookup (users (snd (CheckAccessToken demo_back ''tok-alice''
          (snd (CheckAccessToken demo ''tok-alice'' (store ''A1'')))))) ''alice'' = Some ''A3'' \<and>
   Unmarshal demo_back ''A3'' = Inr alice3 \<and>
   LastSeen (Sessions alice3 ! 0) = 500 \<and>
   LastSeen (Sessions alice3 ! 0) < LastSeen (Sessions alice2 ! 0)"
  by (simp add: repo_defs demo_defs)

subsection \<open>C9: logout is not implemented\<close>

text \<open>
  C9. For every token and every state, \<open>Logout\<close> returns the error \<open>not implemented\<close>
  and the very state it was given: the bucket is unchanged and the trace has no new event
  (no transaction, no read, no write).
\<close>

theorem Logout_always_fails:
  "Logout r token w = (Some (errors_New ''not implemented''), w) \<and>
   fst (Logout r token w) \<noteq> None \<and>
   users (snd (Logout r token w)) = users w \<and>
   new_events w (snd (Logout r token w)) = []"
  by (simp add: Logout_def new_events_def)

subsection \<open>C10: only the first session with the token is updated\<close>

text \<open>
  C10. Let \<open>CheckAccessToken\<close> succeed for a token that resolves to \<open>username\<close>, whose
  stored record is \<open>u\<close>. Then the record written is \<open>u\<close> with \<open>LastSeen\<close> set in the
  session at index \<open>i\<close>, where \<open>i\<close> is the first index whose session has this token; every
  session after \<open>i\<close>, with the same token or not, is written back as it was.
\<close>

theorem CheckAccessToken_updates_first_match_only:
  assumes "CheckAccessToken r token w = ((view, None), w')"
    and "GetUsername r token = Inr username"
    and "fmlookup (users w) username = Some j" and "Unmarshal r j = Inr u"
  shows "\<exists>i j'. i < length (Sessions u) \<and> Token (Sessions u ! i) = token \<and>
           (\<forall>k<i. Token (Sessions u ! k) \<noteq> token) \<and>
           Marshal r (u\<lparr>Sessions := (Sessions u)[i := (Sessions u ! i)\<lparr>LastSeen := Now r\<rparr>]\<rparr>) = Inr j' \<and>
           users w' = fmupd (Username u) j' (users w) \<and>
           (\<forall>k<length (Sessions u). i < k \<longrightarrow>
              (Sessions u)[i := (Sessions u ! i)\<lparr>LastSeen := Now r\<rparr>] ! k = Sessions u ! k)"
proof -
  from CheckAccessToken_ok [OF assms(1)] assms(2-4) obtain i j' where
    f: "findSession (Sessions u) token 0 = Some i"
    and m: "Marshal r (u\<lparr>Sessions := (Sessions u)[i := (Sessions u ! i)\<lparr>LastSeen := Now r\<rparr>]\<rparr>) = Inr j'"
    and s: "users w' = fmupd (Username u) j' (users w)"
    by auto
  from f have "i < length (Sessions u)" "Token (Sessions u ! i) = token"
    "\<forall>k<i. Token (Sessions u ! k) \<noteq> token"
    by (auto simp: findSession_Some)
  with m s show ?thesis by (intro exI [of _ i] exI [of _ j']) simp
qed

theorem CheckAccessToken_updates_first_match_only_witness:
  "GetUsername demo ''tok-alice'' = Inr ''alice'' \<and>
   fmlookup (users (store ''T0'')) ''alice'' = Some ''T0'' \<and>
   Unmarshal demo ''T0'' = Inr alice_twice \<and>
   Token (Sessions alice_twice ! 0) = ''tok-alice'' \<and>
   Token (Sessions alice_twice ! 1) = ''tok-alice'' \<and>
   fst (CheckAccessToken demo ''tok-alice'' (store ''T0'')) = (\<lparr>auth_Username = ''alice''\<rparr>, None) \<and>
   users (snd (CheckAccessToken demo ''tok-alice'' (store ''T0''))) = users (store ''T1'') \<and>
   Unmarshal demo ''T1'' = Inr alice_twice_seen \<and>
   Sessions alice_twice_seen =
     [\<lparr>Token = ''tok-alice'', LastSeen = 1000\<rparr>, \<lparr>Token = ''tok-alice'', LastSeen = 0\<rparr>]"
proof -
  let ?c = "CheckAccessToken demo ''tok-alice'' (store ''T0'')"
  have v: "fst ?c = (\<lparr>auth_Username = ''alice''\<rparr>, None)"
    by (simp add: repo_defs demo_defs)
  then have run: "?c = ((\<lparr>auth_Username = ''alice''\<rparr>, None), snd ?c)"
    by (simp add: prod_eq_iff)
  have h: "GetUsername demo ''tok-alice'' = Inr ''alice''"
    "fmlookup (users (store ''T0'')) ''alice'' = Some ''T0''"
    "Unmarshal demo ''T0'' = Inr alice_twice"
    by (simp_all add: demo_defs)
  have t: "Token (Sessions alice_twice ! 0) = ''tok-alice''"
    "Token (Sessions alice_twice ! 1) = ''tok-alice''"
    "Unmarshal demo ''T1'' = Inr alice_twice_seen"
    "Sessions alice_twice_seen =
       [\<lparr>Token = ''tok-alice'', LastSeen = 1000\<rparr>, \<lparr>Token = ''tok-alice'', LastSeen = 0\<rparr>]"
    by (simp_all add: demo_defs)
  from CheckAccessToken_updates_first_match_only [OF run h] obtain i j' where
    i: "\<forall>k<i. Token (Sessions alice_twice ! k) \<noteq> ''tok-alice''"
    and m: "Marshal demo (alice_twice\<lparr>Sessions :=
              (Sessions alice_twice)[i := (Sessions alice_twice ! i)\<lparr>LastSeen := Now demo\<rparr>]\<rparr>) = Inr j'"
    and s: "users (snd ?c) = fmupd (Username alice_twice) j' (users (store ''T0''))"
    by blast
  from i t(1) have i0: "i = 0" by (cases i) auto
  from m have "j' = ''T1''" unfolding i0 by (simp add: demo_defs)
  with s have "users (snd ?c) = users (store ''T1'')" by (simp add: demo_defs)
  with v h t show ?thesis by blast
qed

end
